theory Spec2Isabelle
  imports Main "HOL-Library.Word"
begin

section \<open>The CDL dataset of torchgeo (torchgeo/datasets/cdl.py)\<close>

text \<open>
  A shallow embedding of the class \<open>CDL\<close>: its constructor, \<open>_check_integrity\<close>,
  \<open>_download\<close> and \<open>__getitem__\<close>. Exceptions are values of the type \<open>error\<close>, the
  instance is a record that the methods take and return, and everything outside the
  Python process (the file system, the time zone, the log of archive fetches, the
  raster handles held open) is a record \<open>world\<close> threaded through the methods.

  Coordinates, pixel values and time stamps are integers: the floating-point
  arithmetic of Python is not modelled. Strings are ASCII.
\<close>

subsection \<open>Exceptions\<close>

datatype error =
    RuntimeError string   \<comment> \<open>raised by the constructor, with its message\<close>
  | ValueError            \<comment> \<open>\<open>int()\<close>, \<open>datetime()\<close>, \<open>timestamp()\<close>\<close>
  | OverflowError         \<comment> \<open>\<open>datetime()\<close> on a year that is no C int\<close>
  | StopIteration         \<comment> \<open>\<open>next()\<close> on an exhausted iterator\<close>
  | RTreeError            \<comment> \<open>the index, on a box with a minimum above its maximum\<close>
  | RasterioIOError       \<comment> \<open>\<open>rasterio.open\<close> on a file it cannot read\<close>
  | FetchError string     \<comment> \<open>whatever the archive fetcher raises\<close>

definition and_then :: "error + 'a \<Rightarrow> ('a \<Rightarrow> error + 'b) \<Rightarrow> error + 'b" where
  \<comment> \<open>sequencing: an exception of the first step skips the rest\<close>
  "and_then m f = (case m of Inl e \<Rightarrow> Inl e | Inr x \<Rightarrow> f x)"

subsection \<open>Python strings and paths\<close>

definition is_digit :: "char \<Rightarrow> bool" where
  "is_digit c = (c \<in> set ''0123456789'')"

definition digit_val :: "char \<Rightarrow> int" where
  "digit_val c = int (of_char c) - 48"

definition is_space :: "char \<Rightarrow> bool" where
  \<comment> \<open>the ASCII characters that \<open>str.isspace\<close> accepts: 9 to 13, 28 to 32\<close>
  "is_space c = (let n = (of_char c :: nat) in (9 \<le> n \<and> n \<le> 13) \<or> (28 \<le> n \<and> n \<le> 32))"

definition strip :: "string \<Rightarrow> string" where
  "strip s = rev (dropWhile is_space (rev (dropWhile is_space s)))"

definition decimal :: "string \<Rightarrow> int" where
  "decimal ds = foldl (\<lambda>a c. 10 * a + digit_val c) 0 ds"

definition py_int :: "string \<Rightarrow> error + int" where
  \<comment> \<open>\<open>int(s)\<close> on a string without underscores (the argument here is a piece of
      \<open>split("_")\<close>): white space around, one optional sign, then one digit or more.\<close>
  "py_int s =
     (let t = strip s;
          (neg, ds) = (case t of
                         c # r \<Rightarrow> if c = CHR ''-'' then (True, r)
                                  else if c = CHR ''+'' then (False, r)
                                  else (False, t)
                       | [] \<Rightarrow> (False, t))
      in if ds = [] \<or> \<not> list_all is_digit ds then Inl ValueError
         else Inr (if neg then - decimal ds else decimal ds))"

fun str_nat :: "nat \<Rightarrow> string" where
  "str_nat n = (if n < 10 then [''0123456789'' ! n]
                else str_nat (n div 10) @ [''0123456789'' ! (n mod 10)])"

definition py_str :: "int \<Rightarrow> string" where
  \<comment> \<open>\<open>str(i)\<close>, which is what \<open>"{}".format(i)\<close> prints\<close>
  "py_str i = (if i < 0 then CHR ''-'' # str_nat (nat (- i)) else str_nat (nat i))"

definition split_first :: "string \<Rightarrow> string" where
  \<comment> \<open>\<open>s.split("_")[0]\<close>: the text before the first underscore, all of \<open>s\<close> without one\<close>
  "split_first s = takeWhile (\<lambda>c. c \<noteq> CHR ''_'') s"

definition basename :: "string \<Rightarrow> string" where
  \<comment> \<open>\<open>os.path.basename\<close>: the text after the last slash\<close>
  "basename p = rev (takeWhile (\<lambda>c. c \<noteq> CHR ''/'') (rev p))"

definition join2 :: "string \<Rightarrow> string \<Rightarrow> string" where
  \<comment> \<open>one step of \<open>os.path.join\<close> (posixpath)\<close>
  "join2 path b =
     (if b \<noteq> [] \<and> hd b = CHR ''/'' then b
      else if path = [] \<or> last path = CHR ''/'' then path @ b
      else path @ ''/'' @ b)"

definition path_join :: "string \<Rightarrow> string list \<Rightarrow> string" where
  "path_join a ps = foldl join2 a ps"

subsection \<open>\<open>datetime\<close>\<close>

record datetime =
  year :: int
  month :: int
  day :: int
  hour :: int
  minute :: int
  second :: int

definition is_leap :: "int \<Rightarrow> bool" where
  "is_leap y = (y mod 4 = 0 \<and> (y mod 100 \<noteq> 0 \<or> y mod 400 = 0))"

definition days_before_year :: "int \<Rightarrow> int" where
  "days_before_year yr = (let y = yr - 1 in y * 365 + y div 4 - y div 100 + y div 400)"

definition days_in_month :: "int \<Rightarrow> int \<Rightarrow> int" where
  "days_in_month y m =
     (if m = 2 \<and> is_leap y then 29
      else [31, 28, 31, 30, 31, 30, 31, 31, 30, 31, 30, 31] ! nat (m - 1))"

definition days_before_month :: "int \<Rightarrow> int \<Rightarrow> int" where
  "days_before_month y m =
     [0, 31, 59, 90, 120, 151, 181, 212, 243, 273, 304, 334] ! nat (m - 1)
       + (if m > 2 \<and> is_leap y then 1 else 0)"

definition ymd_to_ord :: "int \<Rightarrow> int \<Rightarrow> int \<Rightarrow> int" where
  "ymd_to_ord y m d = days_before_year y + days_before_month y m + d"

definition new_datetime :: "int \<Rightarrow> int \<Rightarrow> int \<Rightarrow> int \<Rightarrow> int \<Rightarrow> int \<Rightarrow> error + datetime" where
  \<comment> \<open>\<open>datetime(y, m, d, hh, mm, ss)\<close>: the arguments are C ints, the year is in 1..9999\<close>
  "new_datetime y m d hh mm ss =
     (if y < - (2 ^ 31) \<or> 2 ^ 31 \<le> y then Inl OverflowError
      else if y < 1 \<or> 9999 < y \<or> m < 1 \<or> 12 < m \<or> d < 1 \<or> days_in_month y m < d
              \<or> hh < 0 \<or> 23 < hh \<or> mm < 0 \<or> 59 < mm \<or> ss < 0 \<or> 59 < ss
      then Inl ValueError
      else Inr \<lparr>year = y, month = m, day = d, hour = hh, minute = mm, second = ss\<rparr>)"

definition utc_to_seconds :: "datetime \<Rightarrow> int" where
  \<comment> \<open>seconds since 0001-01-01 minus one day, the date read as UTC\<close>
  "utc_to_seconds dt =
     ((ymd_to_ord (year dt) (month dt) (day dt) * 24 + hour dt) * 60 + minute dt) * 60
       + second dt"

definition epoch :: int where
  "epoch = 719163 * 24 * 60 * 60"

definition local_seconds :: "(int \<Rightarrow> int) \<Rightarrow> int \<Rightarrow> error + int" where
  \<comment> \<open>the local wall clock at the instant \<open>u\<close>, in the same unit as \<open>utc_to_seconds\<close>;
      \<open>off\<close> gives the zone's offset from UTC at a POSIX time. It is ValueError when
      the local year leaves 1..9999.\<close>
  "local_seconds off u =
     (let l = u + off (u - epoch)
      in if l < 1 * 86400 \<or> 3652060 * 86400 \<le> l then Inl ValueError else Inr l)"

definition local_to_seconds :: "(int \<Rightarrow> int) \<Rightarrow> datetime \<Rightarrow> error + int" where
  \<comment> \<open>the instant whose local wall clock is the naive \<open>dt\<close> (fold = 0)\<close>
  "local_to_seconds off dt =
     (let t = utc_to_seconds dt in
      and_then (local_seconds off t) (\<lambda>lt.
      let a = lt - t; u1 = t - a in
      and_then (local_seconds off u1) (\<lambda>t1.
      if t1 = t then
        (let u2 = u1 - 24 * 3600 in
         and_then (local_seconds off u2) (\<lambda>lt2.
         let b = lt2 - u2 in
         if a = b then Inr u1
         else (let u2' = t - b in
               and_then (local_seconds off u2') (\<lambda>t2.
               if t2 = t then Inr u2' else Inr u1))))
      else
        (let b = t1 - u1; u2 = t - b in
         and_then (local_seconds off u2) (\<lambda>t2.
         if t2 = t then Inr u2 else Inr (max u1 u2))))))"

definition timestamp :: "(int \<Rightarrow> int) \<Rightarrow> datetime \<Rightarrow> error + int" where
  \<comment> \<open>\<open>dt.timestamp()\<close> of a naive datetime\<close>
  "timestamp off dt =
     and_then (local_to_seconds off dt) (\<lambda>s. Inr (s - epoch))"

subsection \<open>The raster source (rasterio)\<close>

record raster =
  bounds :: "int \<times> int \<times> int \<times> int"  \<comment> \<open>\<open>f.bounds\<close>: left, bottom, right, top\<close>
  height :: nat
  width :: nat
  band1 :: "nat \<Rightarrow> nat \<Rightarrow> int"           \<comment> \<open>the pixel of band 1 at a row and a column\<close>

datatype window = Window (col_off: int) (row_off: int) (win_width: int) (win_height: int)

record 'a ndarray =
  shape :: "nat \<times> nat"       \<comment> \<open>rows, columns\<close>
  elems :: "'a list list"

definition read_band1 :: "raster \<Rightarrow> window \<Rightarrow> int ndarray" where
  \<comment> \<open>\<open>f.read(1, window=window)\<close>: the window is cropped to the pixel grid of the raster
      (the read is not boundless), and the rows and columns left are returned\<close>
  "read_band1 f win =
     (let h = int (height f); w = int (width f);
          row_start = min (max (row_off win) 0) h;
          col_start = min (max (col_off win) 0) w;
          row_stop = max 0 (min (row_off win + win_height win) h);
          col_stop = max 0 (min (col_off win + win_width win) w);
          rs = [nat row_start ..< nat row_stop];
          cs = [nat col_start ..< nat col_stop]
      in \<lparr>shape = (length rs, length cs), elems = map (\<lambda>i. map (\<lambda>j. band1 f i j) cs) rs\<rparr>)"

type_synonym int32 = "32 word"   \<comment> \<open>two's complement: \<open>sint\<close> reads the value\<close>

definition astype_int32 :: "int ndarray \<Rightarrow> int32 ndarray" where
  \<comment> \<open>\<open>masks.astype(np.int32)\<close>: every pixel as a signed 32-bit integer\<close>
  "astype_int32 a = \<lparr>shape = shape a, elems = map (map word_of_int) (elems a)\<rparr>"

record sample =
  masks :: "int32 ndarray"   \<comment> \<open>the dictionary \<open>{"masks": tensor}\<close>\<close>

subsection \<open>Bounding boxes and the spatiotemporal index\<close>

record bbox =
  minx :: int
  maxx :: int
  miny :: int
  maxy :: int
  mint :: int
  maxt :: int

definition bbox_ok :: "bbox \<Rightarrow> bool" where
  \<comment> \<open>Modelled from the spec: the invariant of a BoundingVolume (the class BoundingBox
      of torchgeo/datasets/utils.py is not among the sources): no minimum is above
      its maximum.\<close>
  "bbox_ok b = (minx b \<le> maxx b \<and> miny b \<le> maxy b \<and> mint b \<le> maxt b)"

record item =
  item_id :: int
  coords :: bbox
  object :: string

definition intersects :: "bbox \<Rightarrow> bbox \<Rightarrow> bool" where
  \<comment> \<open>Modelled from the spec: two closed boxes meet on each of the three axes.\<close>
  "intersects a b =
     (minx a \<le> maxx b \<and> minx b \<le> maxx a \<and>
      miny a \<le> maxy b \<and> miny b \<le> maxy a \<and>
      mint a \<le> maxt b \<and> mint b \<le> maxt a)"

definition index_insert :: "item list \<Rightarrow> int \<Rightarrow> bbox \<Rightarrow> string \<Rightarrow> error + item list" where
  \<comment> \<open>Modelled from the spec: \<open>self.index\<close> is declared by GeoDataset
      (torchgeo/datasets/geo.py, not among the sources). \<open>insert\<close> adds an entry, with no
      uniqueness constraint; a box that breaks the invariant is refused. The list stands
      for the entries in the order in which the index enumerates them, which the spec
      leaves open: no theorem below depends on where a new entry goes.\<close>
  "index_insert idx i b obj =
     (if \<not> bbox_ok b then Inl RTreeError
      else Inr (idx @ [\<lparr>item_id = i, coords = b, object = obj\<rparr>]))"

definition index_intersection :: "item list \<Rightarrow> bbox \<Rightarrow> error + item list" where
  \<comment> \<open>Modelled from the spec: \<open>query\<close> returns all the entries whose box intersects the
      query box, as a finite sequence that every call starts afresh.\<close>
  "index_intersection idx q =
     (if \<not> bbox_ok q then Inl RTreeError
      else Inr (filter (\<lambda>e. intersects (coords e) q) idx))"

subsection \<open>The world outside the process\<close>

record platform =
  isfile :: "string \<Rightarrow> bool"               \<comment> \<open>\<open>os.path.isfile\<close>\<close>
  md5sum :: "string \<Rightarrow> string"             \<comment> \<open>the MD5 digest of a file's content\<close>
  glob :: "string \<Rightarrow> string list"          \<comment> \<open>\<open>glob.iglob\<close>: the paths that match a pattern\<close>
  rasterio_open :: "string \<Rightarrow> raster option"  \<comment> \<open>None: the file cannot be read as a raster\<close>
  utcoffset :: "int \<Rightarrow> int"                \<comment> \<open>the local zone's offset at a POSIX time\<close>

type_synonym fetch_call = "string \<times> string \<times> string option"  \<comment> \<open>url, download root, md5\<close>

type_synonym fetcher = "fetch_call \<Rightarrow> platform \<Rightarrow> error option \<times> platform"

record world =
  platform :: platform
  fetched :: "fetch_call list"   \<comment> \<open>the calls of \<open>download_and_extract_archive\<close>, oldest first\<close>
  stdout :: "string list"
  handles :: "string list"       \<comment> \<open>the rasters held open\<close>

definition open_handle :: "string \<Rightarrow> world \<Rightarrow> world" where
  "open_handle filename w = w\<lparr>handles := filename # handles w\<rparr>"

definition close_handle :: "string \<Rightarrow> world \<Rightarrow> world" where
  "close_handle filename w = w\<lparr>handles := remove1 filename (handles w)\<rparr>"

definition check_integrity :: "platform \<Rightarrow> string \<Rightarrow> string option \<Rightarrow> bool" where
  \<comment> \<open>\<open>torchvision.datasets.utils.check_integrity\<close>\<close>
  "check_integrity p fpath md5 =
     (if \<not> isfile p fpath then False
      else case md5 of None \<Rightarrow> True | Some m \<Rightarrow> md5sum p fpath = m)"

subsection \<open>The class \<open>CDL\<close>\<close>

record cdl =
  root :: string
  transforms :: "(sample \<Rightarrow> sample) option"
  checksum :: bool
  index :: "item list"

definition base_folder :: string where
  "base_folder = ''cdl''"

definition url_format :: "int \<Rightarrow> string" where
  \<comment> \<open>\<open>self.url.format(year)\<close>\<close>
  "url_format y =
     ''https://www.nass.usda.gov/Research_and_Science/Cropland/Release/datasets/''
       @ py_str y @ ''_30m_cdls.zip''"

definition md5s :: "(int \<times> string) list" where
  "md5s =
     [(2020, ''97b3b5fd62177c9ed857010bca146f36''),
      (2019, ''49d8052168c15c18f8b81ee21397b0bb''),
      (2018, ''c7a3061585131ef049bec8d06c6d521e''),
      (2017, ''dc8c1d7b255c9258d332dd8b23546c93''),
      (2016, ''bb4df1b2ee6cedcc12a7e5a4527fcf1b''),
      (2015, ''d17b4bb6ee7940af2c45d6854dafec09''),
      (2014, ''6e0fcc800bd9f090f543104db93bead8''),
      (2013, ''38df780d8b504659d837b4c53a51b3f7''),
      (2012, ''2f3b46e6e4d91c3b7e2a049ba1531abc''),
      (2011, ''dac7fe435c3c5a65f05846c715315460''),
      (2010, ''18c9a00f5981d5d07ace69e3e33ea105''),
      (2009, ''81a20629a4713de6efba2698ccb2aa3d''),
      (2008, ''e6aa3967e379b98fd30c26abe9696053'')]"

definition archive_path :: "cdl \<Rightarrow> int \<Rightarrow> string" where
  \<comment> \<open>\<open>os.path.join(self.root, self.base_folder, "{}_30m_cdls.zip".format(year))\<close>\<close>
  "archive_path self y = path_join (root self) [base_folder, py_str y @ ''_30m_cdls.zip'']"

definition md5_arg :: "cdl \<Rightarrow> string \<Rightarrow> string option" where
  \<comment> \<open>\<open>md5 if self.checksum else None\<close>\<close>
  "md5_arg self md5 = (if checksum self then Some md5 else None)"

fun check_integrity_loop :: "cdl \<Rightarrow> platform \<Rightarrow> (int \<times> string) list \<Rightarrow> bool" where
  "check_integrity_loop self p [] = True"
| "check_integrity_loop self p ((y, md5) # rest) =
     (if \<not> check_integrity p (archive_path self y) (md5_arg self md5) then False
      else check_integrity_loop self p rest)"

definition CDL_check_integrity :: "cdl \<Rightarrow> platform \<Rightarrow> bool" where
  \<comment> \<open>\<open>CDL._check_integrity\<close>\<close>
  "CDL_check_integrity self p = check_integrity_loop self p md5s"

definition fetch_call_of :: "cdl \<Rightarrow> int \<times> string \<Rightarrow> fetch_call" where
  \<comment> \<open>the arguments of \<open>download_and_extract_archive\<close> for one row of the table\<close>
  "fetch_call_of self ym =
     (url_format (fst ym), path_join (root self) [base_folder], md5_arg self (snd ym))"

fun download_loop :: "fetcher \<Rightarrow> cdl \<Rightarrow> (int \<times> string) list \<Rightarrow> world \<Rightarrow> (error + unit) \<times> world" where
  "download_loop fetch self [] w = (Inr (), w)"
| "download_loop fetch self (ym # rest) w =
     (let call = fetch_call_of self ym;
          w1 = w\<lparr>fetched := fetched w @ [call]\<rparr>;
          (r, p) = fetch call (platform w1);
          w2 = w1\<lparr>platform := p\<rparr>
      in case r of Some e \<Rightarrow> (Inl e, w2)
                 | None \<Rightarrow> download_loop fetch self rest w2)"

definition CDL_download :: "fetcher \<Rightarrow> cdl \<Rightarrow> world \<Rightarrow> (error + unit) \<times> world" where
  \<comment> \<open>\<open>CDL._download\<close>\<close>
  "CDL_download fetch self w =
     (if CDL_check_integrity self (platform w)
      then (Inr (), w\<lparr>stdout := stdout w @ [''Files already downloaded and verified'']\<rparr>)
      else download_loop fetch self md5s w)"

definition temporal_bounds :: "(int \<Rightarrow> int) \<Rightarrow> string \<Rightarrow> error + int \<times> int" where
  \<comment> \<open>the first three statements of the constructor's loop: year, mint, maxt\<close>
  "temporal_bounds off filename =
     and_then (py_int (split_first (basename filename))) (\<lambda>yr.
     and_then (new_datetime yr 1 1 0 0 0) (\<lambda>d1.
     and_then (timestamp off d1) (\<lambda>t1.
     and_then (new_datetime yr 12 31 23 59 59) (\<lambda>d2.
     and_then (timestamp off d2) (\<lambda>t2.
     Inr (t1, t2))))))"

definition index_file :: "cdl \<Rightarrow> string \<Rightarrow> world \<Rightarrow> (error + cdl) \<times> world" where
  \<comment> \<open>the body of the constructor's loop\<close>
  "index_file self filename w =
     (case temporal_bounds (utcoffset (platform w)) filename of
        Inl e \<Rightarrow> (Inl e, w)
      | Inr (t1, t2) \<Rightarrow>
          (case rasterio_open (platform w) filename of
             None \<Rightarrow> (Inl RasterioIOError, w)
           | Some f \<Rightarrow>
               (let w1 = open_handle filename w;
                    (x1, y1, x2, y2) = bounds f;
                    c = \<lparr>minx = x1, maxx = x2, miny = y1, maxy = y2, mint = t1, maxt = t2\<rparr>;
                    r = index_insert (index self) 0 c filename;
                    w2 = close_handle filename w1
                in (and_then r (\<lambda>idx. Inr (self\<lparr>index := idx\<rparr>)), w2))))"

fun index_files :: "cdl \<Rightarrow> string list \<Rightarrow> world \<Rightarrow> (error + cdl) \<times> world" where
  "index_files self [] w = (Inr self, w)"
| "index_files self (filename # rest) w =
     (case index_file self filename w of
        (Inl e, w') \<Rightarrow> (Inl e, w')
      | (Inr self', w') \<Rightarrow> index_files self' rest w')"

definition fileglob :: "string \<Rightarrow> string" where
  "fileglob r = path_join r [base_folder, ''**_30m_cdls.img'']"

definition not_found_message :: string where
  "not_found_message =
     ''Dataset not found or corrupted. '' @ ''You can use download=True to download it''"

definition maybe_download :: "fetcher \<Rightarrow> cdl \<Rightarrow> bool \<Rightarrow> world \<Rightarrow> (error + unit) \<times> world" where
  \<comment> \<open>\<open>if download: self._download()\<close>\<close>
  "maybe_download fetch self download w =
     (if download then CDL_download fetch self w else (Inr (), w))"

definition CDL_init ::
  "fetcher \<Rightarrow> string \<Rightarrow> (sample \<Rightarrow> sample) option \<Rightarrow> bool \<Rightarrow> bool \<Rightarrow> world \<Rightarrow> (error + cdl) \<times> world" where
  \<comment> \<open>\<open>CDL.__init__(root, transforms, download, checksum)\<close>. Modelled from the spec: the
      index that GeoDataset (not among the sources) hands to the instance is empty.\<close>
  "CDL_init fetch r t download c w =
     (let self = \<lparr>root = r, transforms = t, checksum = c, index = []\<rparr>;
          (d, w1) = maybe_download fetch self download w
      in case d of
           Inl e \<Rightarrow> (Inl e, w1)
         | Inr _ \<Rightarrow>
             if \<not> CDL_check_integrity self (platform w1)
             then (Inl (RuntimeError not_found_message), w1)
             else index_files self (glob (platform w1) (fileglob r)) w1)"

definition first_hit :: "cdl \<Rightarrow> bbox \<Rightarrow> error + string" where
  \<comment> \<open>\<open>next(self.index.intersection(query, objects=True)).object\<close>\<close>
  "first_hit self query =
     and_then (index_intersection (index self) query) (\<lambda>hits.
     case hits of [] \<Rightarrow> Inl StopIteration | h # _ \<Rightarrow> Inr (object h))"

definition CDL_getitem :: "cdl \<Rightarrow> bbox \<Rightarrow> world \<Rightarrow> (error + sample) \<times> cdl \<times> world" where
  \<comment> \<open>\<open>CDL.__getitem__(query)\<close>: the result, the instance and the world afterwards\<close>
  "CDL_getitem self query w =
     (let win = Window (minx query) (miny query)
                  (maxx query - minx query) (maxy query - miny query)
      in case first_hit self query of
           Inl e \<Rightarrow> (Inl e, self, w)
         | Inr filename \<Rightarrow>
             (case rasterio_open (platform w) filename of
                None \<Rightarrow> (Inl RasterioIOError, self, w)
              | Some f \<Rightarrow>
                  (let w1 = open_handle filename w;
                       m = read_band1 f win;
                       w2 = close_handle filename w1;
                       m32 = astype_int32 m
                   in (Inr \<lparr>masks = m32\<rparr>, self, w2))))"

subsection \<open>Auxiliary notions and example worlds\<close>


definition raster100 :: raster where
  \<comment> \<open>a raster of 100 by 100 pixels with the bounds (0, 0)-(100, 100)\<close>
  "raster100 = \<lparr>bounds = (0, 0, 100, 100), height = 100, width = 100,
                 band1 = (\<lambda>i j. int (i * 100 + j))\<rparr>"

definition pf2015 :: platform where
  \<comment> \<open>under data/cdl: the thirteen archives, none with the digest of the table, and
      the raster 2015_30m_cdls.img; the clock is UTC\<close>
  "pf2015 =
     \<lparr>isfile = (\<lambda>p. p \<in> set (map (\<lambda>ym. ''data/cdl/'' @ py_str (fst ym) @ ''_30m_cdls.zip'') md5s)),
      md5sum = (\<lambda>p. ''d41d8cd98f00b204e9800998ecf8427e''),
      glob = (\<lambda>pat. if pat = ''data/cdl/**_30m_cdls.img''
                     then [''data/cdl/2015_30m_cdls.img''] else []),
      rasterio_open = (\<lambda>p. if p = ''data/cdl/2015_30m_cdls.img'' then Some raster100 else None),
      utcoffset = (\<lambda>u. 0)\<rparr>"

definition w2015 :: world where
  "w2015 = \<lparr>platform = pf2015, fetched = [], stdout = [], handles = []\<rparr>"

definition ds2015 :: cdl where
  \<comment> \<open>the instance that the constructor builds in \<open>w2015\<close>\<close>
  "ds2015 =
     \<lparr>root = ''data'', transforms = None, checksum = False,
      index = [\<lparr>item_id = 0,
                coords = \<lparr>minx = 0, maxx = 100, miny = 0, maxy = 100,
                           mint = 1420070400, maxt = 1451606399\<rparr>,
                object = ''data/cdl/2015_30m_cdls.img''\<rparr>]\<rparr>"

definition q2015 :: bbox where
  \<comment> \<open>the query of the spec's end-to-end example, at an instant in mid-2015\<close>
  "q2015 = \<lparr>minx = 10, maxx = 60, miny = 10, maxy = 60, mint = 1435000000, maxt = 1435000000\<rparr>"

definition q2000 :: bbox where
  \<comment> \<open>the same place, at an instant in mid-2000\<close>
  "q2000 = \<lparr>minx = 10, maxx = 60, miny = 10, maxy = 60, mint = 961000000, maxt = 961000000\<rparr>"

definition no_fetch :: fetcher where
  \<comment> \<open>a fetcher without a network\<close>
  "no_fetch call p = (Some (FetchError ''offline''), p)"

definition store_archive :: fetcher where
  \<comment> \<open>a fetcher that always succeeds and leaves the archive in the download root\<close>
  "store_archive call p =
     (case call of (u, dest, m) \<Rightarrow>
        (None, p\<lparr>isfile := (isfile p)(path_join dest [basename u] := True)\<rparr>))"

definition clear_masks :: "sample \<Rightarrow> sample" where
  \<comment> \<open>a transform: it empties the masks\<close>
  "clear_masks s = s\<lparr>masks := \<lparr>shape = (0, 0), elems = []\<rparr>\<rparr>"

definition pf2020 :: platform where
  \<comment> \<open>as \<open>pf2015\<close>, with no other archive than that of 2020\<close>
  "pf2020 = pf2015\<lparr>isfile := (\<lambda>p. p = ''data/cdl/2020_30m_cdls.zip'')\<rparr>"

definition w2020 :: world where
  "w2020 = \<lparr>platform = pf2020, fetched = [], stdout = [], handles = []\<rparr>"

definition w_empty :: world where
  \<comment> \<open>an empty root\<close>
  "w_empty = \<lparr>platform = pf2015\<lparr>isfile := (\<lambda>p. False), glob := (\<lambda>pat. []),
                                  rasterio_open := (\<lambda>p. None)\<rparr>,
              fetched = [], stdout = [], handles = []\<rparr>"

definition w_no_raster :: world where
  \<comment> \<open>the thirteen archives and no raster\<close>
  "w_no_raster = w2015\<lparr>platform := pf2015\<lparr>glob := (\<lambda>pat. []),
                                            rasterio_open := (\<lambda>p. None)\<rparr>\<rparr>"


section \<open>Properties\<close>

declare str_nat.simps [simp del]

subsection \<open>The query\<close>

lemma close_open_handle: "close_handle filename (open_handle filename w) = w"
  by (simp add: close_handle_def open_handle_def)

lemma first_hit_no_hit:
  assumes "bbox_ok query" and "\<forall>e \<in> set (index self). \<not> intersects (coords e) query"
  shows "first_hit self query = Inl StopIteration"
proof -
  have "filter (\<lambda>e. intersects (coords e) query) (index self) = []"
    using assms(2) by (simp add: filter_empty_conv)
  with assms(1) show ?thesis
    by (simp add: first_hit_def index_intersection_def and_then_def)
qed

lemma getitem_frame: "snd (CDL_getitem self query w) = (self, w)"
  by (simp add: CDL_getitem_def Let_def close_open_handle split: sum.split option.split)

lemma getitem_hit:
  assumes "first_hit self query = Inr filename"
      and "rasterio_open (platform w) filename = Some f"
  shows "fst (CDL_getitem self query w) =
           Inr \<lparr>masks = astype_int32 (read_band1 f
                   (Window (minx query) (miny query)
                      (maxx query - minx query) (maxy query - miny query)))\<rparr>"
  using assms by (simp add: CDL_getitem_def Let_def)

lemma read_band1_inside:
  assumes "0 \<le> c" and "0 \<le> r" and "0 \<le> nw" and "0 \<le> nh"
      and "c + nw \<le> int (width f)" and "r + nh \<le> int (height f)"
  shows "shape (read_band1 f (Window c r nw nh)) = (nat nh, nat nw)"
    and "length (elems (read_band1 f (Window c r nw nh))) = nat nh"
    and "\<forall>row \<in> set (elems (read_band1 f (Window c r nw nh))). length row = nat nw"
    and "\<forall>i < nat nh. \<forall>j < nat nw.
           elems (read_band1 f (Window c r nw nh)) ! i ! j = band1 f (nat r + i) (nat c + j)"
  using assms
  by (auto simp: read_band1_def Let_def min_def max_def nat_add_distrib nat_diff_distrib)

lemma first_hit_2015: "first_hit ds2015 q2015 = Inr ''data/cdl/2015_30m_cdls.img''"
  by (simp add: first_hit_def index_intersection_def and_then_def ds2015_def q2015_def
        bbox_ok_def intersects_def)

lemma open_2015: "rasterio_open (platform w2015) ''data/cdl/2015_30m_cdls.img'' = Some raster100"
  by (simp add: w2015_def pf2015_def)

text \<open>
  C1. A query box that intersects no entry of the index makes \<open>__getitem__\<close> fail: the
  iterator of hits is exhausted at once and \<open>next\<close> raises StopIteration, the
  not-found condition of this code. No sample is returned.
\<close>

theorem C1_no_intersection_fails:
  assumes "bbox_ok query"
      and "\<forall>e \<in> set (index self). \<not> intersects (coords e) query"
  shows "fst (CDL_getitem self query w) = Inl StopIteration"
  using first_hit_no_hit [OF assms] by (simp add: CDL_getitem_def Let_def)

theorem C1_no_intersection_fails_witness:
  "fst (CDL_getitem ds2015 q2000 w2015) = Inl StopIteration"
proof -
  have ok: "bbox_ok q2000"
    by (simp add: bbox_ok_def q2000_def)
  have none: "\<forall>e \<in> set (index ds2015). \<not> intersects (coords e) q2000"
    by (simp add: ds2015_def q2000_def intersects_def)
  show ?thesis
    by (rule C1_no_intersection_fails [OF ok none])
qed

text \<open>
  C10. \<open>__getitem__\<close> assigns no attribute of the instance and closes the raster it
  opened: whether it returns a sample or raises, the instance (root, transforms,
  checksum flag, index) and the world are afterwards what they were before.
\<close>

theorem C10_getitem_leaves_instance_unchanged:
  "snd (CDL_getitem self query w) = (self, w)"
  by (rule getitem_frame)

theorem C10_getitem_leaves_instance_unchanged_witness:
  "snd (CDL_getitem ds2015 q2015 w2015) = (ds2015, w2015) \<and>
   snd (CDL_getitem ds2015 q2000 w2015) = (ds2015, w2015)"
  using C10_getitem_leaves_instance_unchanged [of ds2015 q2015 w2015]
        C10_getitem_leaves_instance_unchanged [of ds2015 q2000 w2015]
  by simp

text \<open>A pixel that fits in 32 bits keeps its value.\<close>

lemma sint_int32: "- (2 ^ 31) \<le> x \<Longrightarrow> x < 2 ^ 31 \<Longrightarrow> sint (word_of_int x :: int32) = x"
  by (simp add: sint_sbintrunc' signed_take_bit_int_eq_self)

text \<open>
  C2. When the query resolves to a raster file, the window read has its origin at
  (minx, miny), the width maxx - minx and the height maxy - miny, and the sample's
  \<open>masks\<close> are the pixels of that window as signed 32-bit integers. For a window inside
  the pixel grid of the raster the array has maxy - miny rows of maxx - minx pixels: the
  query (10, 60, 10, 60, t, t) gives the shape (50, 50).
\<close>

theorem C2_window_and_masks:
  assumes "first_hit self query = Inr filename"
      and "rasterio_open (platform w) filename = Some f"
  shows "fst (CDL_getitem self query w) =
           Inr \<lparr>masks = astype_int32 (read_band1 f
                   (Window (minx query) (miny query)
                      (maxx query - minx query) (maxy query - miny query)))\<rparr> \<and>
         (bbox_ok query \<and> 0 \<le> minx query \<and> maxx query \<le> int (width f) \<and>
          0 \<le> miny query \<and> maxy query \<le> int (height f) \<longrightarrow>
            (\<exists>s. fst (CDL_getitem self query w) = Inr s \<and>
               shape (masks s) = (nat (maxy query - miny query), nat (maxx query - minx query)) \<and>
               length (elems (masks s)) = nat (maxy query - miny query) \<and>
               (\<forall>row \<in> set (elems (masks s)). length row = nat (maxx query - minx query)) \<and>
               (\<forall>i < nat (maxy query - miny query). \<forall>j < nat (maxx query - minx query).
                  elems (masks s) ! i ! j =
                    word_of_int (band1 f (nat (miny query) + i) (nat (minx query) + j)))))"
proof (intro conjI impI)
  let ?win = "Window (minx query) (miny query)
                (maxx query - minx query) (maxy query - miny query)"
  show hit: "fst (CDL_getitem self query w) = Inr \<lparr>masks = astype_int32 (read_band1 f ?win)\<rparr>"
    by (rule getitem_hit [OF assms])
  assume a: "bbox_ok query \<and> 0 \<le> minx query \<and> maxx query \<le> int (width f) \<and>
             0 \<le> miny query \<and> maxy query \<le> int (height f)"
  then have b: "0 \<le> minx query" "0 \<le> miny query" "0 \<le> maxx query - minx query"
    "0 \<le> maxy query - miny query" "minx query + (maxx query - minx query) \<le> int (width f)"
    "miny query + (maxy query - miny query) \<le> int (height f)"
    by (simp_all add: bbox_ok_def)
  note rb = read_band1_inside [OF b]
  have sh: "shape (astype_int32 (read_band1 f ?win)) =
              (nat (maxy query - miny query), nat (maxx query - minx query))"
    using rb(1) by (simp add: astype_int32_def)
  have len: "length (elems (astype_int32 (read_band1 f ?win))) = nat (maxy query - miny query)"
    using rb(2) by (simp add: astype_int32_def)
  have rows: "\<forall>row \<in> set (elems (astype_int32 (read_band1 f ?win))).
                length row = nat (maxx query - minx query)"
    using rb(3) by (auto simp: astype_int32_def)
  have px: "\<forall>i < nat (maxy query - miny query). \<forall>j < nat (maxx query - minx query).
              elems (astype_int32 (read_band1 f ?win)) ! i ! j =
                word_of_int (band1 f (nat (miny query) + i) (nat (minx query) + j))"
  proof (intro allI impI)
    fix i j
    assume i: "i < nat (maxy query - miny query)" and j: "j < nat (maxx query - minx query)"
    have li: "i < length (elems (read_band1 f ?win))"
      using rb(2) i by simp
    then have "elems (read_band1 f ?win) ! i \<in> set (elems (read_band1 f ?win))"
      by simp
    with rb(3) have lj: "j < length (elems (read_band1 f ?win) ! i)"
      using j by simp
    from rb(4) i j have "elems (read_band1 f ?win) ! i ! j =
        band1 f (nat (miny query) + i) (nat (minx query) + j)"
      by simp
    with li lj show "elems (astype_int32 (read_band1 f ?win)) ! i ! j =
        word_of_int (band1 f (nat (miny query) + i) (nat (minx query) + j))"
      by (simp add: astype_int32_def)
  qed
  show "\<exists>s. fst (CDL_getitem self query w) = Inr s \<and>
          shape (masks s) = (nat (maxy query - miny query), nat (maxx query - minx query)) \<and>
          length (elems (masks s)) = nat (maxy query - miny query) \<and>
          (\<forall>row \<in> set (elems (masks s)). length row = nat (maxx query - minx query)) \<and>
          (\<forall>i < nat (maxy query - miny query). \<forall>j < nat (maxx query - minx query).
             elems (masks s) ! i ! j =
               word_of_int (band1 f (nat (miny query) + i) (nat (minx query) + j)))"
    using hit sh len rows px by simp
qed

theorem C2_window_and_masks_witness:
  "map_sum id (\<lambda>s. shape (masks s)) (fst (CDL_getitem ds2015 q2015 w2015)) = Inr (50, 50)"
proof -
  have inside: "bbox_ok q2015 \<and> 0 \<le> minx q2015 \<and> maxx q2015 \<le> int (width raster100) \<and>
                0 \<le> miny q2015 \<and> maxy q2015 \<le> int (height raster100)"
    by (simp add: bbox_ok_def q2015_def raster100_def)
  from C2_window_and_masks [OF first_hit_2015 open_2015] inside
  obtain s where "fst (CDL_getitem ds2015 q2015 w2015) = Inr s"
    and "shape (masks s) = (nat (maxy q2015 - miny q2015), nat (maxx q2015 - minx q2015))"
    by blast
  then show ?thesis
    by (simp add: q2015_def)
qed



lemma getitem_ignores_transforms:
  "fst (CDL_getitem (self\<lparr>transforms := t\<rparr>) query w) = fst (CDL_getitem self query w)"
  by (simp add: CDL_getitem_def first_hit_def Let_def split: sum.split option.split)

text \<open>
  C4. The constructor stores \<open>transforms\<close>, and \<open>__getitem__\<close> never reads it: with the
  transform \<open>clear_masks\<close> supplied, the query still returns the masks of 50 by 50
  pixels, where the transform applied to the resolved sample has the shape (0, 0).
\<close>

theorem C4_transforms_never_applied:
  "map_sum id (\<lambda>s. shape (masks s))
     (fst (CDL_getitem (ds2015\<lparr>transforms := Some clear_masks\<rparr>) q2015 w2015)) = Inr (50, 50) \<and>
   map_sum id (\<lambda>s. shape (masks (clear_masks s)))
     (fst (CDL_getitem ds2015 q2015 w2015)) = Inr (0, 0)"
proof -
  have "fst (CDL_getitem ds2015 q2015 w2015) =
          Inr \<lparr>masks = astype_int32 (read_band1 raster100
                  (Window (minx q2015) (miny q2015)
                     (maxx q2015 - minx q2015) (maxy q2015 - miny q2015)))\<rparr>"
    by (rule getitem_hit [OF first_hit_2015 open_2015])
  moreover have "shape (astype_int32 (read_band1 raster100
                  (Window (minx q2015) (miny q2015)
                     (maxx q2015 - minx q2015) (maxy q2015 - miny q2015)))) = (50, 50)"
    by (simp add: astype_int32_def read_band1_def q2015_def raster100_def Let_def)
  ultimately show ?thesis
    by (simp add: getitem_ignores_transforms clear_masks_def)
qed


subsection \<open>The constructor on the example world\<close>

lemma integrity_2015:
  "CDL_check_integrity \<lparr>root = ''data'', transforms = t, checksum = False, index = i\<rparr> pf2015"
  by (simp add: CDL_check_integrity_def md5s_def check_integrity_def archive_path_def
        path_join_def join2_def base_folder_def py_str_def str_nat.simps md5_arg_def pf2015_def)

lemma tb_2015: "temporal_bounds (\<lambda>u. 0) ''data/cdl/2015_30m_cdls.img'' = Inr (1420070400, 1451606399)"
  by (simp add: temporal_bounds_def and_then_def basename_def split_first_def py_int_def
        strip_def is_space_def is_digit_def decimal_def digit_val_def new_datetime_def
        days_in_month_def is_leap_def timestamp_def local_to_seconds_def local_seconds_def
        utc_to_seconds_def ymd_to_ord_def days_before_year_def days_before_month_def epoch_def
        Let_def)

lemma init_2015: "CDL_init no_fetch ''data'' None False False w2015 = (Inr ds2015, w2015)"
proof -
  have g: "glob (platform w2015) (fileglob ''data'') = [''data/cdl/2015_30m_cdls.img'']"
    by (simp add: w2015_def pf2015_def fileglob_def path_join_def join2_def base_folder_def)
  have f: "index_file \<lparr>root = ''data'', transforms = None, checksum = False, index = []\<rparr>
             ''data/cdl/2015_30m_cdls.img'' w2015 = (Inr ds2015, w2015)"
    using tb_2015
    by (simp add: index_file_def w2015_def pf2015_def raster100_def index_insert_def bbox_ok_def
          and_then_def ds2015_def close_open_handle Let_def)
  show ?thesis
    using integrity_2015 [of None "[]"] g f
    by (simp add: CDL_init_def maybe_download_def w2015_def Let_def)
qed

subsection \<open>Integrity check and download\<close>

lemma check_integrity_loop_iff:
  "check_integrity_loop self p tbl =
     (\<forall>ym \<in> set tbl. check_integrity p (archive_path self (fst ym)) (md5_arg self (snd ym)))"
  by (induction self p tbl rule: check_integrity_loop.induct) simp_all

lemma CDL_check_integrity_iff:
  "CDL_check_integrity self p =
     (\<forall>ym \<in> set md5s. isfile p (archive_path self (fst ym)) \<and>
        (checksum self \<longrightarrow> md5sum p (archive_path self (fst ym)) = snd ym))"
  by (auto simp: CDL_check_integrity_def check_integrity_loop_iff check_integrity_def md5_arg_def)

lemma download_loop_prefix:
  "\<exists>k \<le> length tbl. (tbl \<noteq> [] \<longrightarrow> 1 \<le> k) \<and>
       (fst (download_loop fetch self tbl w) = Inr () \<longrightarrow> k = length tbl) \<and>
       fetched (snd (download_loop fetch self tbl w)) =
         fetched w @ take k (map (fetch_call_of self) tbl)"
proof (induction tbl arbitrary: w)
  case Nil
  show ?case by simp
next
  case (Cons ym rest)
  define call where "call = fetch_call_of self ym"
  define w1 where "w1 = w\<lparr>fetched := fetched w @ [call]\<rparr>"
  obtain r p where rp: "fetch call (platform w1) = (r, p)"
    by (cases "fetch call (platform w1)")
  define w2 where "w2 = w1\<lparr>platform := p\<rparr>"
  have f2: "fetched w2 = fetched w @ [call]"
    by (simp add: w2_def w1_def)
  show ?case
  proof (cases r)
    case (Some e)
    with rp have "download_loop fetch self (ym # rest) w = (Inl e, w2)"
      by (simp add: Let_def call_def w1_def w2_def)
    with f2 show ?thesis
      by (intro exI [of _ 1]) (simp add: call_def)
  next
    case None
    with rp have step: "download_loop fetch self (ym # rest) w = download_loop fetch self rest w2"
      by (simp add: Let_def call_def w1_def w2_def)
    from Cons.IH [of w2] obtain k where k: "k \<le> length rest"
      "fst (download_loop fetch self rest w2) = Inr () \<longrightarrow> k = length rest"
      "fetched (snd (download_loop fetch self rest w2)) =
         fetched w2 @ take k (map (fetch_call_of self) rest)"
      by blast
    show ?thesis
      using k f2 step by (intro exI [of _ "Suc k"]) (simp add: call_def)
  qed
qed

lemma download_loop_working:
  assumes "\<forall>call p. fst (fetch call p) = None"
  shows "fst (download_loop fetch self tbl w) = Inr () \<and>
         fetched (snd (download_loop fetch self tbl w)) =
           fetched w @ map (fetch_call_of self) tbl"
proof (induction tbl arbitrary: w)
  case Nil
  show ?case by simp
next
  case (Cons ym rest)
  define call where "call = fetch_call_of self ym"
  define w1 where "w1 = w\<lparr>fetched := fetched w @ [call]\<rparr>"
  obtain r p where rp: "fetch call (platform w1) = (r, p)"
    by (cases "fetch call (platform w1)")
  define w2 where "w2 = w1\<lparr>platform := p\<rparr>"
  have "fst (fetch call (platform w1)) = None"
    using assms by blast
  with rp have step: "download_loop fetch self (ym # rest) w = download_loop fetch self rest w2"
    by (simp add: Let_def call_def w1_def w2_def)
  have "fetched w2 = fetched w @ [call]"
    by (simp add: w2_def w1_def)
  with Cons.IH [of w2] step show ?case
    by (simp add: call_def)
qed

lemma index_file_world: "snd (index_file self filename w) = w"
  by (simp add: index_file_def Let_def close_open_handle split: sum.split option.split prod.split)

lemma index_files_world: "snd (index_files self fs w) = w"
proof (induction fs arbitrary: self)
  case Nil
  show ?case by simp
next
  case (Cons f fs)
  obtain r w' where r: "index_file self f w = (r, w')"
    by (cases "index_file self f w")
  with index_file_world [of self f w] have "w' = w" by simp
  with r Cons.IH show ?case
    by (cases r) simp_all
qed

lemma CDL_init_world:
  "snd (CDL_init fetch r t dl c w) =
     snd (maybe_download fetch \<lparr>root = r, transforms = t, checksum = c, index = []\<rparr> dl w)"
  by (simp add: CDL_init_def Let_def index_files_world split: prod.split sum.split)

lemma CDL_init_fetched:
  "fetched (snd (CDL_init fetch r t True c w)) =
     fetched (snd (CDL_download fetch \<lparr>root = r, transforms = t, checksum = c, index = []\<rparr> w))"
  by (simp add: CDL_init_world maybe_download_def)

lemma init_download_verified:
  assumes "CDL_check_integrity \<lparr>root = r, transforms = t, checksum = c, index = []\<rparr> (platform w)"
  shows "fetched (snd (CDL_init fetch r t True c w)) = fetched w"
  using assms by (simp add: CDL_init_fetched CDL_download_def)

lemma init_download_prefix:
  assumes "\<not> CDL_check_integrity \<lparr>root = r, transforms = t, checksum = c, index = []\<rparr> (platform w)"
  shows "\<exists>k. 1 \<le> k \<and> k \<le> length md5s \<and>
           (k < length md5s \<longrightarrow> (\<exists>e. fst (CDL_init fetch r t True c w) = Inl e)) \<and>
           fetched (snd (CDL_init fetch r t True c w)) =
             fetched w @ take k (map (fetch_call_of
               \<lparr>root = r, transforms = t, checksum = c, index = []\<rparr>) md5s)"
proof -
  let ?self0 = "\<lparr>root = r, transforms = t, checksum = c, index = []\<rparr>"
  have ne: "md5s \<noteq> []"
    by (simp add: md5s_def)
  from download_loop_prefix [of md5s fetch ?self0 w]
  obtain k where k: "k \<le> length md5s" "md5s \<noteq> [] \<longrightarrow> 1 \<le> k"
    "fst (download_loop fetch ?self0 md5s w) = Inr () \<longrightarrow> k = length md5s"
    "fetched (snd (download_loop fetch ?self0 md5s w)) =
       fetched w @ take k (map (fetch_call_of ?self0) md5s)"
    by blast
  have dl: "maybe_download fetch ?self0 True w = download_loop fetch ?self0 md5s w"
    using assms by (simp add: maybe_download_def CDL_download_def)
  have "\<exists>e. fst (CDL_init fetch r t True c w) = Inl e" if "k < length md5s"
  proof -
    obtain d w1 where d: "download_loop fetch ?self0 md5s w = (d, w1)"
      by (cases "download_loop fetch ?self0 md5s w")
    with that k(3) obtain e where "d = Inl e"
      by (cases d) auto
    with dl d show ?thesis
      by (simp add: CDL_init_def Let_def)
  qed
  with ne assms k show ?thesis
    by (intro exI [of _ k]) (simp add: CDL_init_fetched CDL_download_def)
qed

lemma init_download_working:
  assumes "\<not> CDL_check_integrity \<lparr>root = r, transforms = t, checksum = c, index = []\<rparr> (platform w)"
      and "\<forall>call p. fst (fetch call p) = None"
  shows "fetched (snd (CDL_init fetch r t True c w)) =
           fetched w @ map (fetch_call_of \<lparr>root = r, transforms = t, checksum = c, index = []\<rparr>) md5s"
  using assms(1) download_loop_working [OF assms(2)]
  by (simp add: CDL_init_fetched CDL_download_def)

lemma archive_path_data_2019:
  "archive_path \<lparr>root = ''data'', transforms = t, checksum = c, index = i\<rparr> 2019 =
     ''data/cdl/2019_30m_cdls.zip''"
  by (simp add: archive_path_def path_join_def join2_def base_folder_def py_str_def str_nat.simps)

lemma archive_path_data_2020:
  "archive_path \<lparr>root = ''data'', transforms = t, checksum = c, index = i\<rparr> 2020 =
     ''data/cdl/2020_30m_cdls.zip''"
  by (simp add: archive_path_def path_join_def join2_def base_folder_def py_str_def str_nat.simps)

lemma not_integrity_2020:
  "\<not> CDL_check_integrity \<lparr>root = ''data'', transforms = None, checksum = False, index = []\<rparr>
       (platform w2020)"
proof -
  have "(2019, ''49d8052168c15c18f8b81ee21397b0bb'') \<in> set md5s"
    by (simp add: md5s_def)
  moreover have "\<not> isfile (platform w2020) ''data/cdl/2019_30m_cdls.zip''"
    by (simp add: w2020_def pf2020_def)
  ultimately have "\<exists>ym \<in> set md5s. \<not> isfile (platform w2020)
      (archive_path \<lparr>root = ''data'', transforms = None, checksum = False, index = []\<rparr> (fst ym))"
    using archive_path_data_2019 [of None False "[]"] by (intro bexI [of _ "(2019, ''49d8052168c15c18f8b81ee21397b0bb'')"]) simp_all
  then show ?thesis
    unfolding CDL_check_integrity_iff by blast
qed

lemma store_archive_works: "\<forall>call p. fst (store_archive call p) = None"
  by (simp add: store_archive_def split: prod.split)

lemma fetch_call_2020:
  "fetch_call_of \<lparr>root = ''data'', transforms = None, checksum = False, index = []\<rparr>
     (2020, ''97b3b5fd62177c9ed857010bca146f36'') =
   (''https://www.nass.usda.gov/Research_and_Science/Cropland/Release/datasets/2020_30m_cdls.zip'',
    ''data/cdl'', None)"
  by (simp add: fetch_call_of_def url_format_def py_str_def str_nat.simps path_join_def join2_def
        base_folder_def md5_arg_def)

text \<open>
  C3. With download enabled the integrity check is made once, over the thirteen
  archives together. If it passes, no fetch is made. If it fails, the fetcher is called
  for the years of the table in their order, from 2020 on, whether or not the archive of
  a year passes its own check, until a call fails: thirteen times when none fails. Each
  call has the URL of its year, the download root root/cdl and the digest of the year
  (None when verification is off).

  A fetch is not skipped year by year: with only the archive of 2020 in place, the
  fetcher is still called for 2020.
\<close>

theorem C3_download_all_or_nothing:
  "(CDL_check_integrity \<lparr>root = r, transforms = t, checksum = c, index = []\<rparr> (platform w) \<longrightarrow>
      fetched (snd (CDL_init fetch r t True c w)) = fetched w) \<and>
   (\<not> CDL_check_integrity \<lparr>root = r, transforms = t, checksum = c, index = []\<rparr> (platform w) \<longrightarrow>
      (\<exists>k. 1 \<le> k \<and> k \<le> length md5s \<and>
         (k < length md5s \<longrightarrow> (\<exists>e. fst (CDL_init fetch r t True c w) = Inl e)) \<and>
         fetched (snd (CDL_init fetch r t True c w)) =
           fetched w @ take k (map (fetch_call_of
             \<lparr>root = r, transforms = t, checksum = c, index = []\<rparr>) md5s))) \<and>
   (\<not> CDL_check_integrity \<lparr>root = r, transforms = t, checksum = c, index = []\<rparr> (platform w) \<and>
    (\<forall>call p. fst (fetch call p) = None) \<longrightarrow>
      fetched (snd (CDL_init fetch r t True c w)) =
        fetched w @ map (fetch_call_of
          \<lparr>root = r, transforms = t, checksum = c, index = []\<rparr>) md5s) \<and>
   fetch_call_of \<lparr>root = r, transforms = t, checksum = c, index = []\<rparr> (y, m) =
     (url_format y, path_join r [''cdl''], if c then Some m else None)"
  using init_download_verified [of r t c w fetch] init_download_prefix [of r t c w fetch]
        init_download_working [of r t c w fetch]
  by (simp add: fetch_call_of_def md5_arg_def base_folder_def)

theorem C3_download_all_or_nothing_witness:
  "fetched (snd (CDL_init store_archive ''data'' None True False w2020)) =
     map (fetch_call_of \<lparr>root = ''data'', transforms = None, checksum = False, index = []\<rparr>) md5s \<and>
   fetched (snd (CDL_init store_archive ''data'' None True False w2015)) = []"
proof -
  note th = C3_download_all_or_nothing [of "''data''" None False _ store_archive]
  have a: "fetched (snd (CDL_init store_archive ''data'' None True False w2020)) =
      fetched w2020 @ map (fetch_call_of
        \<lparr>root = ''data'', transforms = None, checksum = False, index = []\<rparr>) md5s"
    using th [of w2020] not_integrity_2020 store_archive_works by blast
  have "CDL_check_integrity \<lparr>root = ''data'', transforms = None, checksum = False, index = []\<rparr>
          (platform w2015)"
    by (simp add: w2015_def integrity_2015)
  with th [of w2015] have b: "fetched (snd (CDL_init store_archive ''data'' None True False w2015)) =
      fetched w2015"
    by blast
  from a b show ?thesis
    by (simp add: w2020_def w2015_def)
qed

theorem C3_fetch_per_year_counterexample:
  "check_integrity (platform w2020) ''data/cdl/2020_30m_cdls.zip'' None \<and>
   (''https://www.nass.usda.gov/Research_and_Science/Cropland/Release/datasets/2020_30m_cdls.zip'',
    ''data/cdl'', None)
     \<in> set (fetched (snd (CDL_init store_archive ''data'' None True False w2020)))"
proof -
  have "check_integrity (platform w2020) ''data/cdl/2020_30m_cdls.zip'' None"
    by (simp add: check_integrity_def w2020_def pf2020_def)
  moreover have "fetched (snd (CDL_init store_archive ''data'' None True False w2020)) =
      fetched w2020 @ map (fetch_call_of
        \<lparr>root = ''data'', transforms = None, checksum = False, index = []\<rparr>) md5s"
    by (rule init_download_working [OF not_integrity_2020 store_archive_works])
  moreover have "(2020, ''97b3b5fd62177c9ed857010bca146f36'') \<in> set md5s"
    by (simp add: md5s_def)
  then have "fetch_call_of \<lparr>root = ''data'', transforms = None, checksum = False, index = []\<rparr>
      (2020, ''97b3b5fd62177c9ed857010bca146f36'')
        \<in> set (map (fetch_call_of
             \<lparr>root = ''data'', transforms = None, checksum = False, index = []\<rparr>) md5s)"
    unfolding set_map by (rule imageI)
  ultimately show ?thesis
    unfolding fetch_call_2020 by simp
qed

lemma init_not_verified:
  assumes "\<not> CDL_check_integrity \<lparr>root = r, transforms = t, checksum = c, index = []\<rparr> (platform w)"
  shows "CDL_init fetch r t False c w = (Inl (RuntimeError not_found_message), w)"
  using assms by (simp add: CDL_init_def maybe_download_def Let_def)

lemma init_no_raster:
  assumes "CDL_check_integrity \<lparr>root = r, transforms = t, checksum = c, index = []\<rparr> (platform w)"
      and "glob (platform w) (fileglob r) = []"
  shows "CDL_init fetch r t False c w =
           (Inr \<lparr>root = r, transforms = t, checksum = c, index = []\<rparr>, w)"
  using assms by (simp add: CDL_init_def maybe_download_def Let_def)

lemma md5s_2020: "(2020, ''97b3b5fd62177c9ed857010bca146f36'') \<in> set md5s"
  by (simp add: md5s_def)

text \<open>
  C5. With download disabled, the constructor raises RuntimeError, with the hint to
  use download=True, when one of the thirteen archives is missing or, with checksum
  verification enabled, has a digest other than the table's. Nothing is fetched and the
  world is left as it was. Without checksum verification a corrupt archive passes.
\<close>

theorem C5_missing_archive_fails:
  assumes "(y, m) \<in> set md5s"
      and "\<not> isfile (platform w)
                (archive_path \<lparr>root = r, transforms = t, checksum = c, index = []\<rparr> y) \<or>
           (c \<and> md5sum (platform w)
                   (archive_path \<lparr>root = r, transforms = t, checksum = c, index = []\<rparr> y) \<noteq> m)"
  shows "CDL_init fetch r t False c w =
           (Inl (RuntimeError
              ''Dataset not found or corrupted. You can use download=True to download it''), w)"
proof -
  have "\<not> CDL_check_integrity \<lparr>root = r, transforms = t, checksum = c, index = []\<rparr> (platform w)"
    unfolding CDL_check_integrity_iff using assms by force
  from init_not_verified [OF this] show ?thesis
    by (simp add: not_found_message_def)
qed

theorem C5_missing_archive_fails_witness:
  "CDL_init no_fetch ''data'' None False False w_empty =
     (Inl (RuntimeError
        ''Dataset not found or corrupted. You can use download=True to download it''), w_empty)"
proof -
  have "\<not> isfile (platform w_empty)
            (archive_path \<lparr>root = ''data'', transforms = None, checksum = False, index = []\<rparr> 2020) \<or>
        (False \<and> md5sum (platform w_empty)
            (archive_path \<lparr>root = ''data'', transforms = None, checksum = False, index = []\<rparr> 2020)
              \<noteq> ''97b3b5fd62177c9ed857010bca146f36'')"
    by (simp add: w_empty_def)
  from C5_missing_archive_fails [OF md5s_2020 this] show ?thesis .
qed

theorem C5_corrupt_archive_passes_counterexample:
  "(2020, ''97b3b5fd62177c9ed857010bca146f36'') \<in> set md5s \<and>
   archive_path \<lparr>root = ''data'', transforms = None, checksum = False, index = []\<rparr> 2020 =
     ''data/cdl/2020_30m_cdls.zip'' \<and>
   md5sum (platform w2015) ''data/cdl/2020_30m_cdls.zip'' \<noteq> ''97b3b5fd62177c9ed857010bca146f36'' \<and>
   CDL_init no_fetch ''data'' None False False w2015 = (Inr ds2015, w2015)"
  using md5s_2020 archive_path_data_2020 [of None False "[]"] init_2015
  by (simp add: w2015_def pf2015_def)

text \<open>
  C9. The integrity check looks at the thirteen archives \<open><year>_30m_cdls.zip\<close> and at
  nothing else: it holds exactly when each of them is a file and, with checksum
  verification enabled, has the digest of the table, so two file systems that agree on
  these give the same answer. The rasters are not looked at: when the check passes and
  no raster is discovered, the constructor succeeds with an empty index.
\<close>

theorem C9_integrity_reads_archives_only:
  "length md5s = 13 \<and>
   (CDL_check_integrity self p \<longleftrightarrow>
      (\<forall>ym \<in> set md5s. isfile p (archive_path self (fst ym)) \<and>
         (checksum self \<longrightarrow> md5sum p (archive_path self (fst ym)) = snd ym))) \<and>
   ((\<forall>ym \<in> set md5s.
        isfile p (archive_path self (fst ym)) = isfile p' (archive_path self (fst ym)) \<and>
        (checksum self \<longrightarrow>
           md5sum p (archive_path self (fst ym)) = md5sum p' (archive_path self (fst ym))))
      \<longrightarrow> CDL_check_integrity self p = CDL_check_integrity self p') \<and>
   archive_path self y = path_join (root self) [''cdl'', py_str y @ ''_30m_cdls.zip''] \<and>
   (CDL_check_integrity \<lparr>root = r, transforms = t, checksum = c, index = []\<rparr> (platform w) \<and>
    glob (platform w) (fileglob r) = [] \<longrightarrow>
      CDL_init fetch r t False c w =
        (Inr \<lparr>root = r, transforms = t, checksum = c, index = []\<rparr>, w))"
proof (intro conjI impI)
  show "length md5s = 13"
    by (simp add: md5s_def)
  show "CDL_check_integrity self p \<longleftrightarrow>
      (\<forall>ym \<in> set md5s. isfile p (archive_path self (fst ym)) \<and>
         (checksum self \<longrightarrow> md5sum p (archive_path self (fst ym)) = snd ym))"
    by (rule CDL_check_integrity_iff)
  show "archive_path self y = path_join (root self) [''cdl'', py_str y @ ''_30m_cdls.zip'']"
    by (simp add: archive_path_def base_folder_def)
next
  assume "\<forall>ym \<in> set md5s.
        isfile p (archive_path self (fst ym)) = isfile p' (archive_path self (fst ym)) \<and>
        (checksum self \<longrightarrow>
           md5sum p (archive_path self (fst ym)) = md5sum p' (archive_path self (fst ym)))"
  then show "CDL_check_integrity self p = CDL_check_integrity self p'"
    unfolding CDL_check_integrity_iff by (intro ball_cong refl) auto
next
  assume "CDL_check_integrity \<lparr>root = r, transforms = t, checksum = c, index = []\<rparr> (platform w) \<and>
    glob (platform w) (fileglob r) = []"
  then show "CDL_init fetch r t False c w =
        (Inr \<lparr>root = r, transforms = t, checksum = c, index = []\<rparr>, w)"
    by (simp add: init_no_raster)
qed

theorem C9_integrity_reads_archives_only_witness:
  "CDL_init no_fetch ''data'' None False False w_no_raster =
     (Inr \<lparr>root = ''data'', transforms = None, checksum = False, index = []\<rparr>, w_no_raster)"
proof -
  note th = C9_integrity_reads_archives_only
    [of "\<lparr>root = ''data'', transforms = None, checksum = False, index = []\<rparr>"
        "platform w_no_raster" pf2015 _ "''data''" None False w_no_raster no_fetch]
  have same: "\<forall>ym \<in> set md5s.
      isfile (platform w_no_raster)
        (archive_path \<lparr>root = ''data'', transforms = None, checksum = False, index = []\<rparr> (fst ym)) =
      isfile pf2015
        (archive_path \<lparr>root = ''data'', transforms = None, checksum = False, index = []\<rparr> (fst ym)) \<and>
      (checksum \<lparr>root = ''data'', transforms = None, checksum = False, index = []\<rparr> \<longrightarrow>
         md5sum (platform w_no_raster)
           (archive_path \<lparr>root = ''data'', transforms = None, checksum = False, index = []\<rparr> (fst ym)) =
         md5sum pf2015
           (archive_path \<lparr>root = ''data'', transforms = None, checksum = False, index = []\<rparr> (fst ym)))"
    by (simp add: w_no_raster_def)
  with th have "CDL_check_integrity
      \<lparr>root = ''data'', transforms = None, checksum = False, index = []\<rparr> (platform w_no_raster) =
    CDL_check_integrity
      \<lparr>root = ''data'', transforms = None, checksum = False, index = []\<rparr> pf2015"
    by blast
  with integrity_2015 [of None "[]"] have ok: "CDL_check_integrity
      \<lparr>root = ''data'', transforms = None, checksum = False, index = []\<rparr> (platform w_no_raster)"
    by simp
  have "glob (platform w_no_raster) (fileglob ''data'') = []"
    by (simp add: w_no_raster_def)
  with ok th show ?thesis
    by blast
qed




subsection \<open>Parsing the year, and the entries of the index\<close>







lemma py_int_empty: "py_int [] = Inl ValueError"
  by (simp add: py_int_def strip_def)












end
